theory Spec2Isabelle
  imports Complex_Main
begin

section \<open>JavaScript values used by the components\<close>

text \<open>
  A JavaScript number is modelled by its mathematical value when it is finite, and by one
  of the three non-finite values otherwise. The rounding of finite results to binary64 is
  not modelled: a finite number stands for the exact rational.
\<close>

datatype jsnum = Fin rat | PosInf | NegInf | NaN

text \<open>
  The operator \<open>/\<close> of the language on two finite numbers: a zero divisor raises nothing,
  it gives \<open>NaN\<close> for \<open>0 / 0\<close> and an infinity of the dividend's sign otherwise.
\<close>

definition js_div :: "rat \<Rightarrow> rat \<Rightarrow> jsnum" where
  "js_div a b =
     (if b = 0 then (if a = 0 then NaN else if 0 < a then PosInf else NegInf)
      else Fin (a / b))"

text \<open>The operator \<open>+\<close> on numbers (used by \<open>+=\<close> on the rotation angles).\<close>

fun js_add :: "jsnum \<Rightarrow> jsnum \<Rightarrow> jsnum" where
  "js_add (Fin a) (Fin b) = Fin (a + b)"
| "js_add NaN _ = NaN"
| "js_add _ NaN = NaN"
| "js_add PosInf NegInf = NaN"
| "js_add NegInf PosInf = NaN"
| "js_add PosInf _ = PosInf"
| "js_add _ PosInf = PosInf"
| "js_add NegInf _ = NegInf"
| "js_add _ NegInf = NegInf"

definition is_finite :: "jsnum \<Rightarrow> bool" where
  "is_finite x = (case x of Fin _ \<Rightarrow> True | _ \<Rightarrow> False)"

text \<open>The decimal text of a non-negative integer, as a template literal inserts it.\<close>

definition digit_char :: "nat \<Rightarrow> char" where
  "digit_char d = char_of (48 + d)"

fun string_of_nat :: "nat \<Rightarrow> string" where
  "string_of_nat n =
     (if n < 10 then [digit_char n]
      else string_of_nat (n div 10) @ [digit_char (n mod 10)])"

declare string_of_nat.simps [simp del]

text \<open>\<open>new Array(n).fill(v)\<close> and \<open>Array.prototype.map\<close> with its \<open>(element, index)\<close> callback.\<close>

definition Array_fill :: "nat \<Rightarrow> 'a \<Rightarrow> 'a list" where
  "Array_fill n v = replicate n v"

definition Array_map :: "('a \<Rightarrow> nat \<Rightarrow> 'b) \<Rightarrow> 'a list \<Rightarrow> 'b list" where
  "Array_map f xs = map (\<lambda>(i, x). f x i) (enumerate 0 xs)"


section \<open>Projects.jsx: the project records\<close>

record project =
  id_num :: nat
  title :: string
  description :: string
  date :: string

definition PROJECTS :: "project list" where
  "PROJECTS =
     Array_map (\<lambda>_ i. \<lparr> id_num = i + 1,
                       title = ''Project '' @ string_of_nat (i + 1),
                       description = ''Short description of the project and its treatment.'',
                       date = ''2024'' \<rparr>)
       (Array_fill 6 (0::nat))"


section \<open>Projects.jsx: the rendered tree\<close>

text \<open>
  The elements a render produces: a tag, the \<open>className\<close> attribute and the children in
  document order, or a text node.
\<close>

datatype node = Element (tag: string) (className: string) (children: "node list") | Text string

definition card_element :: "project \<Rightarrow> node" where
  "card_element p =
     Element ''article''
       ''card rounded-2xl overflow-hidden shadow-sm bg-white hover:shadow-lg transition-transform''
       [ Element ''div'' ''aspect-video bg-gray-100 flex items-center justify-center''
           [ Element ''span'' ''text-sm text-gray-500'' [Text ''Placeholder visual''] ],
         Element ''div'' ''p-6''
           [ Element ''h3'' ''font-semibold text-lg'' [Text (title p)],
             Element ''p'' ''text-sm mt-2 text-gray-600'' [Text (description p)],
             Element ''div'' ''mt-4 flex items-center justify-between''
               [ Element ''a'' ''text-sm underline'' [Text ''View project''],
                 Element ''span'' ''text-xs text-gray-400'' [Text (date p)] ] ] ]"

definition Projects_render :: node where
  "Projects_render =
     Element ''main'' ''py-20 px-6 md:px-12 lg:px-24 bg-gradient-to-b from-white to-gray-50''
       [ Element ''div'' ''max-w-6xl mx-auto''
           [ Element ''h2'' ''text-3xl md:text-4xl font-bold mb-8'' [Text ''Selected Projects''],
             Element ''div'' ''grid grid-cols-1 md:grid-cols-2 lg:grid-cols-3 gap-8''
               (map card_element PROJECTS) ] ]"

text \<open>The class tokens of a \<open>className\<close>: its maximal runs of non-space characters.\<close>

fun tokens_acc :: "string \<Rightarrow> string \<Rightarrow> string list" where
  "tokens_acc cur [] = (if cur = [] then [] else [cur])"
| "tokens_acc cur (c # cs) =
     (if c = CHR '' '' then (if cur = [] then tokens_acc [] cs else cur # tokens_acc [] cs)
      else tokens_acc (cur @ [c]) cs)"

definition tokens :: "string \<Rightarrow> string list" where
  "tokens s = tokens_acc [] s"

definition has_class :: "string \<Rightarrow> node \<Rightarrow> bool" where
  "has_class c n = (case n of Element _ cn _ \<Rightarrow> c \<in> set (tokens cn) | Text _ \<Rightarrow> False)"

fun subtree :: "node \<Rightarrow> node list" where
  "subtree (Text t) = [Text t]"
| "subtree (Element t c ks) = Element t c ks # concat (map subtree ks)"

definition descendants :: "node \<Rightarrow> node list" where
  "descendants n = (case n of Text _ \<Rightarrow> [] | Element _ _ ks \<Rightarrow> concat (map subtree ks))"

text \<open>
  \<open>gsap.utils.selector(ref)\<close> gives a function that runs \<open>querySelectorAll\<close> on the element
  held by the ref: the descendants that match, in document order. Only class selectors
  (\<open>.name\<close>) occur in the component; any other selector text matches nothing here.
\<close>

definition selector :: "node \<Rightarrow> string \<Rightarrow> node list" where
  "selector el sel =
     (case sel of
        [] \<Rightarrow> []
      | c # cls \<Rightarrow> if c = CHR ''.'' then filter (has_class cls) (descendants el) else [])"


section \<open>Projects.jsx: the scroll reveal\<close>

text \<open>The second argument of the component's call of \<open>gsap.from\<close>.\<close>

record scroll_trigger =
  trigger :: node
  start :: string

record from_vars =
  y_offset :: rat
  autoAlpha :: rat
  duration :: rat
  stagger :: rat
  ease :: string
  scrollTrigger :: scroll_trigger

record entrance_animation =
  target :: node
  delay :: rat
  from_y :: rat
  from_alpha :: rat
  tween_duration :: rat
  tween_ease :: string
  watch :: scroll_trigger

text \<open>
  Modelled from the spec: \<open>gsap.from\<close> belongs to the animation library, whose code is not
  among the sources. Following section 4.3 it registers one entrance animation per selected
  element (vertical offset and fade-in), the element at position \<open>i\<close> in document order
  delayed by \<open>i\<close> times the stagger, all of them bound to the one scroll trigger.
\<close>

definition gsap_from :: "node list \<Rightarrow> from_vars \<Rightarrow> entrance_animation list" where
  "gsap_from targets vars =
     map (\<lambda>(i, el). \<lparr> target = el,
                      delay = of_nat i * stagger vars,
                      from_y = y_offset vars,
                      from_alpha = autoAlpha vars,
                      tween_duration = duration vars,
                      tween_ease = ease vars,
                      watch = scrollTrigger vars \<rparr>)
       (enumerate 0 targets)"

text \<open>
  Modelled from the spec: the scroll trigger belongs to the same library. A start of the
  form \<open>top N%\<close> is reached when the top edge of the trigger element, measured from the top
  of the viewport, is at or above \<open>N\<close> percent of the viewport height.
\<close>

definition digit_val :: "char \<Rightarrow> nat option" where
  "digit_val c = (let k = of_char c :: nat in if 48 \<le> k \<and> k \<le> 57 then Some (k - 48) else None)"

fun nat_of_digits :: "nat \<Rightarrow> string \<Rightarrow> nat option" where
  "nat_of_digits acc [] = Some acc"
| "nat_of_digits acc (c # cs) =
     (case digit_val c of None \<Rightarrow> None | Some d \<Rightarrow> nat_of_digits (10 * acc + d) cs)"

definition parse_start :: "string \<Rightarrow> (string \<times> nat) option" where
  "parse_start s =
     (case tokens s of
        [edge, pos] \<Rightarrow>
          (if pos \<noteq> [] \<and> last pos = CHR ''%'' \<and> butlast pos \<noteq> []
           then map_option (Pair edge) (nat_of_digits 0 (butlast pos)) else None)
      | _ \<Rightarrow> None)"

definition trigger_reached :: "string \<Rightarrow> rat \<Rightarrow> rat \<Rightarrow> bool" where
  "trigger_reached st top_edge viewport_height =
     (case parse_start st of
        None \<Rightarrow> False
      | Some (edge, pct) \<Rightarrow>
          edge = ''top'' \<and> top_edge \<le> of_nat pct / 100 * viewport_height)"

text \<open>
  The mount effect of \<open>Projects\<close>, run once the ref holds the rendered \<open>main\<close> element:
  the animations registered by its one call of \<open>gsap.from\<close>.
\<close>

definition Projects_effect :: "node \<Rightarrow> entrance_animation list" where
  "Projects_effect ref_current =
     (let q = selector ref_current
      in gsap_from (q ''.card'')
           \<lparr> y_offset = 40,
             autoAlpha = 0,
             duration = 9 / 10,
             stagger = 12 / 100,
             ease = ''power3.out'',
             scrollTrigger = \<lparr> trigger = ref_current, start = ''top 80%'' \<rparr> \<rparr>)"


section \<open>Hero.jsx: the objects of the scene\<close>

text \<open>
  The canvas element as the effect reads it: its layout size in whole pixels, which the
  host page sets and changes.
\<close>

record canvas_element =
  clientWidth :: nat
  clientHeight :: nat

text \<open>
  The objects built from the 3D library, reduced to the fields the component reads or
  writes. \<open>projection_aspect\<close> is the aspect that went into the projection matrix when
  it was last recomputed.
\<close>

record camera_obj =
  fov :: rat
  aspect :: jsnum
  near :: rat
  far :: rat
  position_z :: rat
  projection_aspect :: jsnum

record renderer_obj =
  output_size :: "nat \<times> nat"
  frames_rendered :: nat
  context_lost :: bool

record mesh_obj =
  rotation_x :: jsnum
  rotation_y :: jsnum

definition PerspectiveCamera :: "rat \<Rightarrow> jsnum \<Rightarrow> rat \<Rightarrow> rat \<Rightarrow> camera_obj" where
  "PerspectiveCamera f a n fr =
     \<lparr> fov = f, aspect = a, near = n, far = fr, position_z = 0, projection_aspect = a \<rparr>"

definition updateProjectionMatrix :: "camera_obj \<Rightarrow> camera_obj" where
  "updateProjectionMatrix c = c\<lparr> projection_aspect := aspect c \<rparr>"

text \<open>
  A new renderer starts with the size of the canvas's drawing buffer. The canvas of the
  render carries no \<open>width\<close> or \<open>height\<close> attribute, so that buffer has the default
  300 by 150.
\<close>

definition WebGLRenderer :: renderer_obj where
  "WebGLRenderer = \<lparr> output_size = (300, 150), frames_rendered = 0, context_lost = False \<rparr>"

definition setSize :: "nat \<Rightarrow> nat \<Rightarrow> renderer_obj \<Rightarrow> renderer_obj" where
  "setSize w h r = r\<lparr> output_size := (w, h) \<rparr>"

definition render :: "renderer_obj \<Rightarrow> renderer_obj" where
  "render r = r\<lparr> frames_rendered := frames_rendered r + 1 \<rparr>"

definition forceContextLoss :: "renderer_obj \<Rightarrow> renderer_obj" where
  "forceContextLoss r = r\<lparr> context_lost := True \<rparr>"

definition Mesh :: mesh_obj where
  "Mesh = \<lparr> rotation_x = Fin 0, rotation_y = Fin 0 \<rparr>"

text \<open>
  What the host keeps for the page: the callbacks waiting for the next animation frame and
  the listeners of the window's \<open>resize\<close> event.
\<close>

datatype callback = Animate

datatype listener = OnResize

record host =
  raf_queue :: "callback list"
  resize_listeners :: "listener list"

definition requestAnimationFrame :: "callback \<Rightarrow> host \<Rightarrow> host" where
  "requestAnimationFrame cb w = w\<lparr> raf_queue := raf_queue w @ [cb] \<rparr>"

definition addEventListener :: "listener \<Rightarrow> host \<Rightarrow> host" where
  "addEventListener l w =
     (if l \<in> set (resize_listeners w) then w
      else w\<lparr> resize_listeners := resize_listeners w @ [l] \<rparr>)"

definition removeEventListener :: "listener \<Rightarrow> host \<Rightarrow> host" where
  "removeEventListener l w = w\<lparr> resize_listeners := removeAll l (resize_listeners w) \<rparr>"


section \<open>Hero.jsx: the component\<close>

text \<open>
  The variables the first effect closes over. The scene holds the one mesh, so the mesh
  stands for it.
\<close>

record scene_env =
  canvas :: canvas_element
  camera :: camera_obj
  renderer :: renderer_obj
  mesh :: mesh_obj
  mounted :: bool

text \<open>
  The audio handle: the options it was built with, whether the asset behind it could not
  be loaded, and the calls made on it so far.
\<close>

datatype howl_call = Play | Pause

record howl =
  src :: "string list"
  loop :: bool
  volume :: rat
  load_failed :: bool
  calls :: "howl_call list"

definition Howl :: "bool \<Rightarrow> howl" where
  "Howl asset_loads =
     \<lparr> src = [''/assets/ambient-loop.mp3''], loop = True, volume = 6 / 10,
       load_failed = (\<not> asset_loads), calls = [] \<rparr>"

definition howl_play :: "howl \<Rightarrow> howl" where
  "howl_play h = h\<lparr> calls := calls h @ [Play] \<rparr>"

definition howl_pause :: "howl \<Rightarrow> howl" where
  "howl_pause h = h\<lparr> calls := calls h @ [Pause] \<rparr>"

text \<open>
  One mounted \<open>Hero\<close>: its state and refs, the closure of the first effect once that effect
  has built the scene, and the host.
\<close>

record hero =
  playing :: bool
  audioRef :: "howl option"
  canvasRef :: "canvas_element option"
  effect_env :: "scene_env option"
  window :: host

definition Hero_init :: "canvas_element option \<Rightarrow> hero" where
  "Hero_init cv =
     \<lparr> playing = False, audioRef = None, canvasRef = cv, effect_env = None,
       window = \<lparr> raf_queue = [], resize_listeners = [] \<rparr> \<rparr>"

datatype error = TypeError

text \<open>The function \<open>animate\<close> of the first effect.\<close>

definition animate :: "scene_env \<Rightarrow> host \<Rightarrow> scene_env \<times> host" where
  "animate e w =
     (if \<not> mounted e then (e, w)
      else
        let m1 = (mesh e)\<lparr> rotation_x := js_add (rotation_x (mesh e)) (Fin (6 / 1000)) \<rparr>;
            m2 = m1\<lparr> rotation_y := js_add (rotation_y m1) (Fin (1 / 100)) \<rparr>;
            e' = e\<lparr> mesh := m2, renderer := render (renderer e) \<rparr>
        in (e', requestAnimationFrame Animate w))"

text \<open>The handler \<open>onResize\<close> of the first effect.\<close>

definition onResize :: "scene_env \<Rightarrow> scene_env" where
  "onResize e =
     (let r = setSize (clientWidth (canvas e)) (clientHeight (canvas e)) (renderer e);
          c = (camera e)\<lparr> aspect := js_div (of_nat (clientWidth (canvas e)))
                                            (of_nat (clientHeight (canvas e))) \<rparr>
      in e\<lparr> renderer := r, camera := updateProjectionMatrix c \<rparr>)"

text \<open>
  The body of the first effect after its guard. It reads the size of the canvas it is
  given; reading a property of \<open>null\<close> is a \<open>TypeError\<close>.
\<close>

definition scene_setup :: "canvas_element option \<Rightarrow> hero \<Rightarrow> error + hero" where
  "scene_setup c s =
     (case c of
        None \<Rightarrow> Inl TypeError
      | Some cv \<Rightarrow>
          let cam = PerspectiveCamera 50
                      (js_div (of_nat (clientWidth cv)) (of_nat (clientHeight cv)))
                      (1 / 10) 1000;
              cam = cam\<lparr> position_z := 5 \<rparr>;
              r = setSize (clientWidth cv) (clientHeight cv) WebGLRenderer;
              e = \<lparr> canvas = cv, camera = cam, renderer = r, mesh = Mesh, mounted = True \<rparr>;
              (e', w) = animate e (window s);
              w' = addEventListener OnResize w
          in Inr (s\<lparr> effect_env := Some e', window := w' \<rparr>))"

text \<open>The first effect: \<open>if (!canvas) return\<close>, then the scene.\<close>

definition scene_effect :: "hero \<Rightarrow> error + hero" where
  "scene_effect s =
     (let c = canvasRef s
      in if c = None then Inr s else scene_setup c s)"

text \<open>
  The cleanup the first effect returns. An effect that returned at its guard returned no
  cleanup, so there is nothing to run then.
\<close>

definition scene_cleanup :: "hero \<Rightarrow> hero" where
  "scene_cleanup s =
     (case effect_env s of
        None \<Rightarrow> s
      | Some e \<Rightarrow>
          s\<lparr> effect_env := Some (e\<lparr> mounted := False,
                                     renderer := forceContextLoss (renderer e) \<rparr>),
             window := removeEventListener OnResize (window s) \<rparr>)"

text \<open>The second effect: it stores a new handle, whether or not the asset can be loaded.\<close>

definition audio_effect :: "bool \<Rightarrow> hero \<Rightarrow> hero" where
  "audio_effect asset_loads s = s\<lparr> audioRef := Some (Howl asset_loads) \<rparr>"

definition Hero_mount :: "bool \<Rightarrow> hero \<Rightarrow> error + hero" where
  "Hero_mount asset_loads s =
     (case scene_effect s of
        Inl err \<Rightarrow> Inl err
      | Inr s' \<Rightarrow> Inr (audio_effect asset_loads s'))"

text \<open>
  The click handler \<open>toggleAudio\<close> that the render of a state puts on the button, run on
  that state: the \<open>playing\<close> that chooses between \<open>pause\<close> and \<open>play\<close> is the one of
  the render, and every change of the state is rendered before the next click.
\<close>

definition toggleAudio :: "hero \<Rightarrow> hero" where
  "toggleAudio s =
     (case audioRef s of
        None \<Rightarrow> s
      | Some h \<Rightarrow>
          let h' = (if playing s then howl_pause h else howl_play h)
          in s\<lparr> audioRef := Some h', playing := \<not> playing s \<rparr>)"

text \<open>The button of the render: its text and its \<open>aria-pressed\<close> attribute.\<close>

record button =
  label :: string
  aria_pressed :: bool

definition Hero_button :: "hero \<Rightarrow> button" where
  "Hero_button s =
     \<lparr> label = (if playing s then ''Pause audio'' else ''Play audio''),
       aria_pressed = playing s \<rparr>"


section \<open>Hero.jsx: what the host does to a mounted component\<close>

text \<open>Running one callback taken from the animation-frame queue.\<close>

definition run_callback :: "callback \<Rightarrow> hero \<Rightarrow> hero" where
  "run_callback cb s =
     (case cb of
        Animate \<Rightarrow>
          (case effect_env s of
             None \<Rightarrow> s
           | Some e \<Rightarrow>
               let (e', w) = animate e (window s)
               in s\<lparr> effect_env := Some e', window := w \<rparr>))"

text \<open>
  One display refresh: the callbacks queued so far are taken off the queue and run in
  order; what they queue waits for the next refresh.
\<close>

definition frame_tick :: "hero \<Rightarrow> hero" where
  "frame_tick s =
     (let cbs = raf_queue (window s);
          s0 = s\<lparr> window := (window s)\<lparr> raf_queue := [] \<rparr> \<rparr>
      in fold run_callback cbs s0)"

definition run_listener :: "listener \<Rightarrow> hero \<Rightarrow> hero" where
  "run_listener l s =
     (case l of
        OnResize \<Rightarrow>
          (case effect_env s of
             None \<Rightarrow> s
           | Some e \<Rightarrow> s\<lparr> effect_env := Some (onResize e) \<rparr>))"

text \<open>A \<open>resize\<close> event: every registered listener runs.\<close>

definition dispatch_resize :: "hero \<Rightarrow> hero" where
  "dispatch_resize s = fold run_listener (resize_listeners (window s)) s"

text \<open>
  The layout gives the canvas element a new size. The ref and the effect's \<open>canvas\<close>
  variable name the same element, so both see it.
\<close>

definition surface_resized :: "nat \<Rightarrow> nat \<Rightarrow> hero \<Rightarrow> hero" where
  "surface_resized w h s =
     (let cv = \<lparr> clientWidth = w, clientHeight = h \<rparr>
      in s\<lparr> canvasRef := map_option (\<lambda>_. cv) (canvasRef s),
            effect_env := map_option (\<lambda>e. e\<lparr> canvas := cv \<rparr>) (effect_env s) \<rparr>)"

definition resize_event :: "nat \<Rightarrow> nat \<Rightarrow> hero \<Rightarrow> hero" where
  "resize_event w h s = dispatch_resize (surface_resized w h s)"


text \<open>
  What can happen to a mounted component: a display refresh, a \<open>resize\<close> event after the
  layout gave the canvas a new size, a click on the audio button, and the unmount, which
  runs the cleanup of the first effect.
\<close>

datatype event = Frame | Resize nat nat | Click | Unmount

fun handle_event :: "event \<Rightarrow> hero \<Rightarrow> hero" where
  "handle_event Frame s = frame_tick s"
| "handle_event (Resize w h) s = resize_event w h s"
| "handle_event Click s = toggleAudio s"
| "handle_event Unmount s = scene_cleanup s"

definition run_events :: "event list \<Rightarrow> hero \<Rightarrow> hero" where
  "run_events evs s = fold handle_event evs s"


section \<open>Invariants of a mounted component\<close>

text \<open>The component is live: the scene exists and exactly its handler listens.\<close>

definition live :: "hero \<Rightarrow> bool" where
  "live s = (effect_env s \<noteq> None \<and> resize_listeners (window s) = [OnResize])"

text \<open>
  The frame loop has stopped: a scene, if there is one, has its liveness flag off and no
  handler of its own listens any more.
\<close>

definition stopped :: "hero \<Rightarrow> bool" where
  "stopped s =
     (case effect_env s of
        None \<Rightarrow> True
      | Some e \<Rightarrow> \<not> mounted e \<and> resize_listeners (window s) = [])"

text \<open>What an event leaves alone once the loop has stopped.\<close>

definition frozen :: "mesh_obj option \<Rightarrow> callback list \<Rightarrow> hero \<Rightarrow> bool" where
  "frozen m q s =
     (stopped s \<and> map_option mesh (effect_env s) = m
      \<and> (raf_queue (window s) = q \<or> raf_queue (window s) = []))"


section \<open>Properties of the project list\<close>

lemma PROJECTS_unfolded:
  "PROJECTS =
     [ \<lparr> id_num = 1, title = ''Project 1'',
         description = ''Short description of the project and its treatment.'', date = ''2024'' \<rparr>,
       \<lparr> id_num = 2, title = ''Project 2'',
         description = ''Short description of the project and its treatment.'', date = ''2024'' \<rparr>,
       \<lparr> id_num = 3, title = ''Project 3'',
         description = ''Short description of the project and its treatment.'', date = ''2024'' \<rparr>,
       \<lparr> id_num = 4, title = ''Project 4'',
         description = ''Short description of the project and its treatment.'', date = ''2024'' \<rparr>,
       \<lparr> id_num = 5, title = ''Project 5'',
         description = ''Short description of the project and its treatment.'', date = ''2024'' \<rparr>,
       \<lparr> id_num = 6, title = ''Project 6'',
         description = ''Short description of the project and its treatment.'', date = ''2024'' \<rparr> ]"
  by code_simp

lemma rendered_cards: "selector Projects_render ''.card'' = map card_element PROJECTS"
  by code_simp

text \<open>
  C4. The project list holds exactly six records, pairwise distinct, whose identifiers are
  1 to 6 in order, the record with identifier \<open>i\<close> being titled \<open>Project i\<close>; the render
  produces one card element for each of them, in the same order.
\<close>

theorem project_list_six_records:
  "length PROJECTS = 6 \<and> distinct PROJECTS
   \<and> map id_num PROJECTS = [1, 2, 3, 4, 5, 6]
   \<and> map (\<lambda>p. (id_num p, title p)) PROJECTS =
       [(1, ''Project 1''), (2, ''Project 2''), (3, ''Project 3''),
        (4, ''Project 4''), (5, ''Project 5''), (6, ''Project 6'')]
   \<and> selector Projects_render ''.card'' = map card_element PROJECTS
   \<and> length (selector Projects_render ''.card'') = 6
   \<and> distinct (selector Projects_render ''.card'')"
  unfolding rendered_cards unfolding PROJECTS_unfolded by (simp add: card_element_def)

text \<open>
  C10. Every one of the six records has the same description and the same date label:
  with the identifier and the title blanked the six records are equal, and the pairs of
  identifier and title are pairwise different. The list is a constant of the module: no
  operation of the component takes it as a state or returns a changed one.
\<close>

theorem project_records_differ_only_in_id_and_title:
  "map description PROJECTS =
     replicate 6 ''Short description of the project and its treatment.''
   \<and> map date PROJECTS = replicate 6 ''2024''
   \<and> map (\<lambda>p. p\<lparr> id_num := 0, title := [] \<rparr>) PROJECTS =
       replicate 6 \<lparr> id_num = 0, title = [],
                     description = ''Short description of the project and its treatment.'',
                     date = ''2024'' \<rparr>
   \<and> distinct (map (\<lambda>p. (id_num p, title p)) PROJECTS)"
  unfolding PROJECTS_unfolded by (simp add: numeral_eq_Suc)


section \<open>Properties of the scroll reveal\<close>

lemma gsap_from_targets: "map target (gsap_from ts v) = ts"
  by (simp add: gsap_from_def split_def o_def)

lemma gsap_from_delays:
  "map delay (gsap_from ts v) = map (\<lambda>i. of_nat i * stagger v) [0..<length ts]"
proof -
  have "map delay (gsap_from ts v) = map (\<lambda>p. of_nat (fst p) * stagger v) (enumerate 0 ts)"
    by (simp add: gsap_from_def split_def o_def)
  also have "\<dots> = map (\<lambda>i. of_nat i * stagger v) (map fst (enumerate 0 ts))"
    by (simp only: map_map o_def)
  finally show ?thesis by simp
qed

lemma trigger_top_80: "trigger_reached ''top 80%'' top_edge vh = (top_edge \<le> 80 / 100 * vh)"
proof -
  have "parse_start ''top 80%'' = Some (''top'', 80)" by code_simp
  then show ?thesis by (simp add: trigger_reached_def mult.commute)
qed

text \<open>
  C8. On mount the scroll reveal registers exactly one entrance animation for each card
  element of the container, in document order: for the render of the component these are
  the six cards. Every animation starts from a vertical offset of 40 and from full
  transparency; the delay of the element at position \<open>i\<close> is \<open>i\<close> times 0.12, so the
  delays grow by the constant step 0.12; all animations watch the container with the start
  \<open>top 80%\<close>, which is reached when the container's top edge is at or above 80 percent of
  the viewport height.
\<close>

theorem scroll_reveal_one_animation_per_card:
  "map target (Projects_effect el) = selector el ''.card''
   \<and> map delay (Projects_effect el) =
       map (\<lambda>i. of_nat i * (12 / 100)) [0..<length (selector el ''.card'')]
   \<and> map target (Projects_effect Projects_render) = map card_element PROJECTS
   \<and> length (Projects_effect Projects_render) = 6
   \<and> distinct (map target (Projects_effect Projects_render))
   \<and> map delay (Projects_effect Projects_render) =
       [0, 12 / 100, 24 / 100, 36 / 100, 48 / 100, 60 / 100]
   \<and> map (\<lambda>a. (from_y a, from_alpha a)) (Projects_effect Projects_render) =
       replicate 6 (40, 0)
   \<and> map watch (Projects_effect Projects_render) =
       replicate 6 \<lparr> trigger = Projects_render, start = ''top 80%'' \<rparr>
   \<and> trigger_reached ''top 80%'' top_edge viewport_height =
       (top_edge \<le> 80 / 100 * viewport_height)"
proof -
  have t: "map target (Projects_effect el) = selector el ''.card''" for el
    by (simp add: Projects_effect_def Let_def gsap_from_targets)
  have d: "map delay (Projects_effect el) =
       map (\<lambda>i. of_nat i * (12 / 100)) [0..<length (selector el ''.card'')]" for el
    by (simp add: Projects_effect_def Let_def gsap_from_delays)
  have six: "length (selector Projects_render ''.card'') = 6"
    unfolding rendered_cards PROJECTS_unfolded by simp
  have l: "length (Projects_effect Projects_render) = 6"
    using arg_cong [OF t [of Projects_render], of length] six by simp
  have dist: "distinct (map target (Projects_effect Projects_render))"
    unfolding t rendered_cards PROJECTS_unfolded by (simp add: card_element_def)
  have dl: "map delay (Projects_effect Projects_render) =
       [0, 12 / 100, 24 / 100, 36 / 100, 48 / 100, 60 / 100]"
    unfolding d six by (simp add: upt_rec)
  have en: "enumerate 0 (selector Projects_render ''.card'') =
      zip [0..<6] (selector Projects_render ''.card'')"
    using six by (simp add: enumerate_eq_zip)
  have fy: "map (\<lambda>a. (from_y a, from_alpha a)) (Projects_effect el) =
       replicate (length (selector el ''.card'')) (40, 0)" for el
    by (simp add: Projects_effect_def Let_def gsap_from_def split_def o_def map_replicate_const)
  have w: "map watch (Projects_effect el) =
       replicate (length (selector el ''.card'')) \<lparr> trigger = el, start = ''top 80%'' \<rparr>"
    for el
    by (simp add: Projects_effect_def Let_def gsap_from_def split_def o_def map_replicate_const)
  show ?thesis
    using t d l dist dl fy [of Projects_render] w [of Projects_render] six trigger_top_80
      rendered_cards by simp
qed


section \<open>Properties of the scene renderer\<close>

lemmas scene_defs =
  scene_effect_def scene_setup_def PerspectiveCamera_def setSize_def WebGLRenderer_def
  Mesh_def animate_def render_def requestAnimationFrame_def addEventListener_def

lemma animate_unmounted: "\<not> mounted e \<Longrightarrow> animate e w = (e, w)"
  by (simp add: animate_def)

lemma animate_keeps:
  "canvas (fst (animate e w)) = canvas e"
  "camera (fst (animate e w)) = camera e"
  "mounted (fst (animate e w)) = mounted e"
  "resize_listeners (snd (animate e w)) = resize_listeners w"
  by (simp_all add: animate_def Let_def requestAnimationFrame_def)

lemma removeAll_OnResize: "removeAll OnResize ls = []"
proof (induction ls)
  case Nil
  show ?case by simp
next
  case (Cons l ls)
  then show ?case by (cases l) simp
qed

lemma live_run_callback: "live s \<Longrightarrow> live (run_callback cb s)"
proof (cases "effect_env s")
  case None
  assume "live s"
  with None show ?thesis by (cases cb) (simp add: run_callback_def)
next
  case (Some e)
  assume l: "live s"
  obtain e' w' where a: "animate e (window s) = (e', w')"
    by (cases "animate e (window s)")
  have "resize_listeners w' = resize_listeners (window s)"
    using animate_keeps(4) [of e "window s"] a by simp
  with l Some a show ?thesis
    by (cases cb) (simp add: run_callback_def live_def)
qed

lemma live_fold_callbacks: "live s \<Longrightarrow> live (fold run_callback cbs s)"
  by (induction cbs arbitrary: s) (simp_all add: live_run_callback)

lemma live_frame_tick: "live s \<Longrightarrow> live (frame_tick s)"
  unfolding frame_tick_def Let_def
  by (rule live_fold_callbacks) (simp add: live_def)

lemma live_resize_event: "live s \<Longrightarrow> live (resize_event w h s)"
  by (auto simp: live_def resize_event_def dispatch_resize_def surface_resized_def
      run_listener_def Let_def)

lemma live_toggleAudio: "live s \<Longrightarrow> live (toggleAudio s)"
  by (auto simp: live_def toggleAudio_def Let_def split: option.splits)

lemma live_run_events: "live s \<Longrightarrow> Unmount \<notin> set evs \<Longrightarrow> live (run_events evs s)"
  unfolding run_events_def
proof (induction evs arbitrary: s)
  case Nil
  then show ?case by simp
next
  case (Cons ev evs)
  have "live (handle_event ev s)"
    using Cons.prems
    by (cases ev) (simp_all add: live_frame_tick live_resize_event live_toggleAudio)
  with Cons show ?case by simp
qed

lemma live_after_mount:
  "Hero_mount a (Hero_init (Some cv)) = Inr s \<Longrightarrow> live s"
  by (auto simp: Hero_mount_def scene_effect_def scene_setup_def Hero_init_def Let_def
      animate_def requestAnimationFrame_def addEventListener_def audio_effect_def live_def
      split: sum.splits prod.splits if_splits)

lemma mount_succeeds: "\<exists>s. Hero_mount a (Hero_init (Some cv)) = Inr s"
  by (simp add: Hero_mount_def scene_effect_def scene_setup_def Hero_init_def Let_def
      split: prod.splits)

lemma resize_on_live:
  assumes "live s"
  shows "\<exists>e. effect_env (resize_event w h s) = Some e
     \<and> aspect (camera e) = js_div (of_nat w) (of_nat h)
     \<and> projection_aspect (camera e) = js_div (of_nat w) (of_nat h)
     \<and> output_size (renderer e) = (w, h)"
  using assms
  by (auto simp: live_def resize_event_def dispatch_resize_def surface_resized_def
      run_listener_def onResize_def Let_def setSize_def updateProjectionMatrix_def)

lemma stopped_cleanup: "stopped (scene_cleanup s)"
  by (simp add: stopped_def scene_cleanup_def removeEventListener_def removeAll_OnResize
      split: option.splits)

lemma run_callback_stopped: "stopped s \<Longrightarrow> run_callback cb s = s"
  by (cases cb) (auto simp: stopped_def run_callback_def animate_unmounted split: option.splits)

lemma fold_callbacks_stopped: "stopped s \<Longrightarrow> fold run_callback cbs s = s"
  by (induction cbs) (simp_all add: run_callback_stopped)

lemma funpow_animate_stopped: "stopped s \<Longrightarrow> (run_callback Animate ^^ n) s = s"
  by (induction n) (simp_all add: run_callback_stopped)

lemma frame_tick_stopped:
  "stopped s \<Longrightarrow> frame_tick s = s\<lparr> window := (window s)\<lparr> raf_queue := [] \<rparr> \<rparr>"
  unfolding frame_tick_def Let_def
  by (rule fold_callbacks_stopped) (simp add: stopped_def split: option.splits)

lemma fold_listeners_no_scene: "effect_env s = None \<Longrightarrow> fold run_listener ls s = s"
proof (induction ls)
  case Nil
  show ?case by simp
next
  case (Cons l ls)
  then show ?case by (cases l) (simp add: run_listener_def)
qed

lemma resize_event_stopped: "stopped s \<Longrightarrow> resize_event w h s = surface_resized w h s"
proof (cases "effect_env s")
  case None
  then have "effect_env (surface_resized w h s) = None"
    by (simp add: surface_resized_def Let_def)
  then show ?thesis
    by (simp add: resize_event_def dispatch_resize_def fold_listeners_no_scene)
next
  case (Some e)
  assume "stopped s"
  with Some show ?thesis
    by (simp add: stopped_def resize_event_def dispatch_resize_def surface_resized_def Let_def)
qed

lemma frozen_handle_event: "frozen m q s \<Longrightarrow> frozen m q (handle_event ev s)"
proof (cases ev)
  case Frame
  assume f: "frozen m q s"
  then have "stopped s" by (simp add: frozen_def)
  from frame_tick_stopped [OF this] f Frame show ?thesis
    by (simp add: frozen_def stopped_def split: option.splits)
next
  case (Resize w h)
  assume f: "frozen m q s"
  then have "stopped s" by (simp add: frozen_def)
  from resize_event_stopped [OF this] f Resize show ?thesis
    by (auto simp: frozen_def stopped_def surface_resized_def Let_def split: option.splits)
next
  case Click
  assume "frozen m q s"
  with Click show ?thesis
    by (auto simp: frozen_def stopped_def toggleAudio_def Let_def split: option.splits)
next
  case Unmount
  assume "frozen m q s"
  with Unmount show ?thesis
    by (auto simp: frozen_def stopped_def scene_cleanup_def removeEventListener_def
        split: option.splits)
qed

lemma frozen_run_events: "frozen m q s \<Longrightarrow> frozen m q (run_events evs s)"
  unfolding run_events_def
  by (induction evs arbitrary: s) (simp_all add: frozen_handle_event)

lemma frozen_cleanup:
  "frozen (map_option mesh (effect_env s)) (raf_queue (window s)) (scene_cleanup s)"
  using stopped_cleanup [of s]
  by (auto simp: frozen_def scene_cleanup_def removeEventListener_def split: option.splits)

text \<open>
  C7. When the canvas ref holds no element at mount time, the first effect returns at its
  guard: it ends without an error and leaves the component and the host as they were, so
  no scene, camera, renderer or mesh is built, no frame is requested and no listener is
  registered.
\<close>

theorem scene_effect_without_canvas:
  assumes "canvasRef s = None"
  shows "scene_effect s = Inr s
     \<and> (\<exists>s'. Hero_mount loads s = Inr s' \<and> effect_env s' = effect_env s
            \<and> window s' = window s)"
  using assms by (simp add: scene_effect_def Hero_mount_def audio_effect_def)

theorem scene_effect_without_canvas_witness:
  "canvasRef (Hero_init None) = None
   \<and> scene_effect (Hero_init None) = Inr (Hero_init None)
   \<and> effect_env (Hero_init None) = None
   \<and> raf_queue (window (Hero_init None)) = []
   \<and> resize_listeners (window (Hero_init None)) = []"
proof -
  have h: "canvasRef (Hero_init None) = None" by (simp add: Hero_init_def)
  from scene_effect_without_canvas [OF h, of True] h show ?thesis
    by (simp add: Hero_init_def)
qed

text \<open>
  C1, as the spec states it, fails: mounting on a canvas of width 0 and height 0 ends
  without an error but does request an animation frame. The state it ends in has one
  \<open>Animate\<close> callback queued, one frame drawn and the aspect \<open>NaN\<close>.
\<close>

theorem zero_surface_schedules_frame_loop:
  "scene_effect (Hero_init (Some \<lparr> clientWidth = 0, clientHeight = 0 \<rparr>)) =
     Inr \<lparr> playing = False, audioRef = None,
           canvasRef = Some \<lparr> clientWidth = 0, clientHeight = 0 \<rparr>,
           effect_env =
             Some \<lparr> canvas = \<lparr> clientWidth = 0, clientHeight = 0 \<rparr>,
                    camera = \<lparr> fov = 50, aspect = NaN, near = 1 / 10, far = 1000,
                               position_z = 5, projection_aspect = NaN \<rparr>,
                    renderer = \<lparr> output_size = (0, 0), frames_rendered = 1,
                                 context_lost = False \<rparr>,
                    mesh = \<lparr> rotation_x = Fin (6 / 1000), rotation_y = Fin (1 / 100) \<rparr>,
                    mounted = True \<rparr>,
           window = \<lparr> raf_queue = [Animate], resize_listeners = [OnResize] \<rparr> \<rparr>"
  by (simp add: scene_defs Hero_init_def js_div_def)

text \<open>
  C1, amended. Mounting on a canvas whose width and height are both zero does not throw,
  and it starts the frame loop as on any other canvas: the scene is built with the aspect
  \<open>0 / 0 = NaN\<close> and the output size \<open>(0, 0)\<close>, the first frame is drawn during the mount
  and one call of the animation callback is scheduled.
\<close>

theorem zero_surface_mount:
  assumes "canvasRef s = Some cv" and "clientWidth cv = 0" and "clientHeight cv = 0"
  shows "\<exists>s' e. scene_effect s = Inr s' \<and> effect_env s' = Some e \<and> mounted e
     \<and> aspect (camera e) = NaN
     \<and> output_size (renderer e) = (0, 0)
     \<and> frames_rendered (renderer e) = 1
     \<and> raf_queue (window s') = raf_queue (window s) @ [Animate]"
  using assms by (simp add: scene_defs js_div_def)

theorem zero_surface_mount_witness:
  "\<exists>s' e. scene_effect (Hero_init (Some \<lparr> clientWidth = 0, clientHeight = 0 \<rparr>)) = Inr s'
     \<and> effect_env s' = Some e \<and> mounted e \<and> aspect (camera e) = NaN
     \<and> frames_rendered (renderer e) = 1
     \<and> raf_queue (window s') = [Animate]"
proof -
  have "canvasRef (Hero_init (Some \<lparr> clientWidth = 0, clientHeight = 0 \<rparr>))
          = Some \<lparr> clientWidth = 0, clientHeight = 0 \<rparr>"
    by (simp add: Hero_init_def)
  from zero_surface_mount [OF this] show ?thesis
    by (auto simp: Hero_init_def)
qed

text \<open>
  C9. The aspect is an unguarded division. For a canvas of height 0, at mount and in the
  resize handler alike, the camera's aspect becomes the quotient of the width by zero: a
  number that is not finite (\<open>NaN\<close> for width 0, positive infinity otherwise). The mount
  ends without an error and the handler has no branch for the case.
\<close>

theorem aspect_unguarded_division:
  assumes "clientHeight cv = 0"
  shows "(\<exists>s' e'. scene_effect (s\<lparr> canvasRef := Some cv \<rparr>) = Inr s' \<and> effect_env s' = Some e'
            \<and> aspect (camera e') = js_div (of_nat (clientWidth cv)) 0
            \<and> \<not> is_finite (aspect (camera e')))
     \<and> aspect (camera (onResize (e\<lparr> canvas := cv \<rparr>))) = js_div (of_nat (clientWidth cv)) 0
     \<and> \<not> is_finite (aspect (camera (onResize (e\<lparr> canvas := cv \<rparr>))))
     \<and> js_div (of_nat (clientWidth cv)) 0 = (if clientWidth cv = 0 then NaN else PosInf)"
  using assms
  by (simp add: scene_defs onResize_def updateProjectionMatrix_def js_div_def is_finite_def)

theorem aspect_unguarded_division_witness:
  "clientHeight \<lparr> clientWidth = 800, clientHeight = 0 \<rparr> = 0
   \<and> (\<exists>s' e'. scene_effect (Hero_init (Some \<lparr> clientWidth = 800, clientHeight = 0 \<rparr>)) = Inr s'
          \<and> effect_env s' = Some e' \<and> aspect (camera e') = PosInf)
   \<and> aspect (camera (onResize
        \<lparr> canvas = \<lparr> clientWidth = 800, clientHeight = 0 \<rparr>,
          camera = PerspectiveCamera 50 (Fin 2) (1 / 10) 1000,
          renderer = WebGLRenderer,
          mesh = Mesh, mounted = True \<rparr>)) = PosInf"
proof -
  have h: "clientHeight \<lparr> clientWidth = 800, clientHeight = 0 \<rparr> = 0" by simp
  have i: "(Hero_init None)\<lparr> canvasRef := Some \<lparr> clientWidth = 800, clientHeight = 0 \<rparr> \<rparr>
             = Hero_init (Some \<lparr> clientWidth = 800, clientHeight = 0 \<rparr>)"
    by (simp add: Hero_init_def)
  from aspect_unguarded_division [OF h, of "Hero_init None"
         "\<lparr> canvas = \<lparr> clientWidth = 300, clientHeight = 150 \<rparr>,
            camera = PerspectiveCamera 50 (Fin 2) (1 / 10) 1000,
            renderer = WebGLRenderer,
            mesh = Mesh, mounted = True \<rparr>"]
  show ?thesis unfolding i by (auto simp: js_div_def)
qed

text \<open>
  C6. After a mount on a canvas, and after any further refreshes, resize events and clicks
  short of the unmount, a resize event that finds the canvas at width \<open>w\<close> and height
  \<open>h\<close> leaves the camera's aspect equal to the quotient \<open>w / h\<close> of the language (also
  in the projection matrix) and the renderer's output size equal to \<open>(w, h)\<close>.
\<close>

theorem resize_sets_aspect_and_size:
  assumes "Unmount \<notin> set evs"
  shows "\<exists>s e. Hero_mount a (Hero_init (Some cv)) = Inr s
     \<and> effect_env (handle_event (Resize w h) (run_events evs s)) = Some e
     \<and> aspect (camera e) = js_div (of_nat w) (of_nat h)
     \<and> projection_aspect (camera e) = js_div (of_nat w) (of_nat h)
     \<and> output_size (renderer e) = (w, h)"
proof -
  obtain s where s: "Hero_mount a (Hero_init (Some cv)) = Inr s"
    using mount_succeeds by blast
  then have "live (run_events evs s)"
    using assms by (simp add: live_after_mount live_run_events)
  from resize_on_live [OF this, of w h] s show ?thesis by auto
qed

theorem resize_sets_aspect_and_size_witness:
  "Unmount \<notin> set [Frame, Click]
   \<and> (\<exists>s e. Hero_mount True (Hero_init (Some \<lparr> clientWidth = 300, clientHeight = 150 \<rparr>)) = Inr s
        \<and> effect_env (handle_event (Resize 800 600) (run_events [Frame, Click] s)) = Some e
        \<and> aspect (camera e) = Fin (4 / 3)
        \<and> output_size (renderer e) = (800, 600))"
proof -
  have h: "Unmount \<notin> set [Frame, Click]" by simp
  have q: "js_div (of_nat 800) (of_nat 600) = Fin (4 / 3)" by (simp add: js_div_def)
  from resize_sets_aspect_and_size
         [OF h, of True "\<lparr> clientWidth = 300, clientHeight = 150 \<rparr>" 800 600]
  show ?thesis unfolding q using h by blast
qed

text \<open>
  C5. Once the cleanup of the first effect has run, calls of the animation callback change
  nothing at all, however many there are; and after any sequence of refreshes, resize
  events, clicks and repeated unmounts the liveness flag is still off, both rotation
  angles of the mesh are what they were at the unmount, and the queue of frame callbacks
  is either the one left at the unmount or empty: no frame is requested any more.
\<close>

theorem no_rotation_after_unmount:
  assumes "effect_env s = Some e"
  shows "(run_callback Animate ^^ n) (scene_cleanup s) = scene_cleanup s
     \<and> (\<exists>e'. effect_env (scene_cleanup s) = Some e' \<and> \<not> mounted e' \<and> mesh e' = mesh e)
     \<and> (\<exists>e'. effect_env (run_events evs (scene_cleanup s)) = Some e' \<and> \<not> mounted e'
           \<and> rotation_x (mesh e') = rotation_x (mesh e)
           \<and> rotation_y (mesh e') = rotation_y (mesh e))
     \<and> (raf_queue (window (run_events evs (scene_cleanup s))) = raf_queue (window s)
           \<or> raf_queue (window (run_events evs (scene_cleanup s))) = [])"
proof -
  have 1: "(run_callback Animate ^^ n) (scene_cleanup s) = scene_cleanup s"
    by (rule funpow_animate_stopped) (rule stopped_cleanup)
  have 2: "\<exists>e'. effect_env (scene_cleanup s) = Some e' \<and> \<not> mounted e' \<and> mesh e' = mesh e"
    using assms by (simp add: scene_cleanup_def)
  have f: "frozen (Some (mesh e)) (raf_queue (window s)) (run_events evs (scene_cleanup s))"
    using frozen_run_events [OF frozen_cleanup [of s], of evs] assms by simp
  then obtain e' where e': "effect_env (run_events evs (scene_cleanup s)) = Some e'"
      and m: "mesh e' = mesh e"
    by (auto simp: frozen_def)
  from f e' have "\<not> mounted e'" by (simp add: frozen_def stopped_def)
  with e' m have 3: "\<exists>e'. effect_env (run_events evs (scene_cleanup s)) = Some e' \<and> \<not> mounted e'
           \<and> rotation_x (mesh e') = rotation_x (mesh e)
           \<and> rotation_y (mesh e') = rotation_y (mesh e)"
    by simp
  from f have 4: "raf_queue (window (run_events evs (scene_cleanup s))) = raf_queue (window s)
           \<or> raf_queue (window (run_events evs (scene_cleanup s))) = []"
    by (simp add: frozen_def)
  from 1 2 3 4 show ?thesis by blast
qed

theorem no_rotation_after_unmount_witness:
  "\<exists>s e. scene_effect (Hero_init (Some \<lparr> clientWidth = 300, clientHeight = 150 \<rparr>)) = Inr s
     \<and> effect_env s = Some e
     \<and> rotation_x (mesh e) = Fin (6 / 1000) \<and> rotation_y (mesh e) = Fin (1 / 100)
     \<and> raf_queue (window s) = [Animate]
     \<and> (run_callback Animate ^^ 3) (scene_cleanup s) = scene_cleanup s
     \<and> (\<exists>e'. effect_env (run_events [Frame, Frame] (scene_cleanup s)) = Some e'
           \<and> rotation_x (mesh e') = Fin (6 / 1000) \<and> rotation_y (mesh e') = Fin (1 / 100))"
proof -
  obtain s e where s: "scene_effect (Hero_init (Some \<lparr> clientWidth = 300, clientHeight = 150 \<rparr>)) = Inr s"
    and e: "effect_env s = Some e"
    and r: "rotation_x (mesh e) = Fin (6 / 1000)" "rotation_y (mesh e) = Fin (1 / 100)"
    and q: "raf_queue (window s) = [Animate]"
    by (simp add: scene_effect_def scene_setup_def Hero_init_def PerspectiveCamera_def
        setSize_def WebGLRenderer_def Mesh_def animate_def render_def
        requestAnimationFrame_def addEventListener_def)
  from no_rotation_after_unmount [OF e, of 3 "[Frame, Frame]"] s e r q
  show ?thesis by auto
qed


section \<open>Properties of the audio toggle\<close>

text \<open>
  C2, as the spec states it, fails: the second effect stores a handle also when the asset
  cannot be loaded, so the presence check passes and the toggle calls \<open>play\<close>, turns the
  playing state on and changes the label from \<open>Play audio\<close> to \<open>Pause audio\<close>.
\<close>

theorem toggle_flips_after_failed_load:
  "Hero_mount False (Hero_init None) = Inr (audio_effect False (Hero_init None))
   \<and> audioRef (audio_effect False (Hero_init None)) = Some (Howl False)
   \<and> load_failed (Howl False)
   \<and> playing (audio_effect False (Hero_init None)) = False
   \<and> label (Hero_button (audio_effect False (Hero_init None))) = ''Play audio''
   \<and> playing (toggleAudio (audio_effect False (Hero_init None))) = True
   \<and> label (Hero_button (toggleAudio (audio_effect False (Hero_init None)))) = ''Pause audio''
   \<and> audioRef (toggleAudio (audio_effect False (Hero_init None)))
        = Some ((Howl False)\<lparr> calls := [Play] \<rparr>)"
  by (simp add: Hero_mount_def scene_effect_def audio_effect_def Hero_init_def Howl_def
      toggleAudio_def howl_play_def Hero_button_def)

text \<open>
  C2, amended. The toggle is an inert no-op when the audio handle is absent: then it
  changes nothing (no call is made, the playing state and the button are as before),
  which the presence check of the handle guarantees. A failed load of the asset does not
  make the handle absent: the mount effect stores a handle whether or not the asset loads.
  With a handle present, loaded or not, one toggle from a rendered state makes exactly one
  call on the handle, \<open>pause\<close> when that state is playing and \<open>play\<close> when it is not, and
  inverts the playing state and with it the label and \<open>aria-pressed\<close>.
\<close>

theorem toggle_noop_without_handle:
  assumes "audioRef s = None" and "audioRef t = Some h"
  shows "toggleAudio s = s
     \<and> Hero_button (toggleAudio s) = Hero_button s
     \<and> audioRef (audio_effect loads s) = Some (Howl loads)
     \<and> load_failed (Howl loads) = (\<not> loads)
     \<and> calls (Howl loads) = []
     \<and> audioRef (toggleAudio t) =
         Some (h\<lparr> calls := calls h @ [if playing t then Pause else Play] \<rparr>)
     \<and> playing (toggleAudio t) = (\<not> playing t)
     \<and> label (Hero_button t) = (if playing t then ''Pause audio'' else ''Play audio'')
     \<and> label (Hero_button (toggleAudio t)) =
         (if playing t then ''Play audio'' else ''Pause audio'')
     \<and> aria_pressed (Hero_button (toggleAudio t)) = (\<not> playing t)"
  using assms
  by (simp add: toggleAudio_def audio_effect_def Howl_def howl_play_def howl_pause_def
      Hero_button_def Let_def)

theorem toggle_noop_without_handle_witness:
  "audioRef (Hero_init None) = None
   \<and> toggleAudio (Hero_init None) = Hero_init None
   \<and> audioRef (audio_effect False (Hero_init None)) = Some (Howl False)
   \<and> load_failed (Howl False)
   \<and> audioRef (toggleAudio (audio_effect False (Hero_init None)))
        = Some ((Howl False)\<lparr> calls := [Play] \<rparr>)
   \<and> playing (toggleAudio (audio_effect False (Hero_init None))) = True
   \<and> label (Hero_button (toggleAudio (audio_effect False (Hero_init None)))) = ''Pause audio''
   \<and> audioRef (toggleAudio (toggleAudio (audio_effect False (Hero_init None))))
        = Some ((Howl False)\<lparr> calls := [Play, Pause] \<rparr>)
   \<and> playing (toggleAudio (toggleAudio (audio_effect False (Hero_init None)))) = False
   \<and> label (Hero_button (toggleAudio (toggleAudio (audio_effect False (Hero_init None)))))
        = ''Play audio''"
proof -
  let ?s0 = "Hero_init None"
  let ?s1 = "audio_effect False ?s0"
  let ?s2 = "toggleAudio ?s1"
  have h0: "audioRef ?s0 = None" by (simp add: Hero_init_def)
  have h1: "audioRef ?s1 = Some (Howl False)" by (simp add: audio_effect_def)
  have p1: "playing ?s1 = False" by (simp add: audio_effect_def Hero_init_def)
  have c0: "calls (Howl False) = []" by (simp add: Howl_def)
  note first = toggle_noop_without_handle [OF h0 h1, of False]
  from first p1 c0 have h2: "audioRef ?s2 = Some ((Howl False)\<lparr> calls := [Play] \<rparr>)"
    by simp
  from first p1 have p2: "playing ?s2 = True" by simp
  note second = toggle_noop_without_handle [OF h0 h2, of False]
  from first second h0 h1 h2 p1 p2 show ?thesis by simp
qed

text \<open>
  C3. With the audio handle present, toggling twice gives the playing state back; one
  toggle inverts it and keeps the handle. After the first and after the second toggle the
  label of the button is \<open>Pause audio\<close> exactly when the state is playing and
  \<open>Play audio\<close> exactly when it is not, and \<open>aria-pressed\<close> equals the playing state.
\<close>

theorem toggle_twice_restores_playing:
  assumes "audioRef s = Some h"
  shows "playing (toggleAudio (toggleAudio s)) = playing s
     \<and> playing (toggleAudio s) = (\<not> playing s)
     \<and> audioRef (toggleAudio s) \<noteq> None
     \<and> (label (Hero_button (toggleAudio s)) = ''Pause audio'') = playing (toggleAudio s)
     \<and> (label (Hero_button (toggleAudio s)) = ''Play audio'') = (\<not> playing (toggleAudio s))
     \<and> aria_pressed (Hero_button (toggleAudio s)) = playing (toggleAudio s)
     \<and> (label (Hero_button (toggleAudio (toggleAudio s))) = ''Pause audio'')
          = playing (toggleAudio (toggleAudio s))
     \<and> (label (Hero_button (toggleAudio (toggleAudio s))) = ''Play audio'')
          = (\<not> playing (toggleAudio (toggleAudio s)))
     \<and> aria_pressed (Hero_button (toggleAudio (toggleAudio s)))
          = playing (toggleAudio (toggleAudio s))"
  using assms by (simp add: toggleAudio_def Hero_button_def Let_def)

theorem toggle_twice_restores_playing_witness:
  "audioRef (audio_effect True (Hero_init None)) = Some (Howl True)
   \<and> playing (audio_effect True (Hero_init None)) = False
   \<and> playing (toggleAudio (audio_effect True (Hero_init None))) = True
   \<and> label (Hero_button (toggleAudio (audio_effect True (Hero_init None)))) = ''Pause audio''
   \<and> playing (toggleAudio (toggleAudio (audio_effect True (Hero_init None)))) = False
   \<and> label (Hero_button (toggleAudio (toggleAudio (audio_effect True (Hero_init None)))))
        = ''Play audio''"
proof -
  have h: "audioRef (audio_effect True (Hero_init None)) = Some (Howl True)"
    by (simp add: audio_effect_def)
  have p: "playing (audio_effect True (Hero_init None)) = False"
    by (simp add: audio_effect_def Hero_init_def)
  from toggle_twice_restores_playing [OF h] h p show ?thesis
    by (simp add: Hero_button_def)
qed

end
